theory Spec2Isabelle
  imports Complex_Main "HOL-Library.Sublist" "HOL-Library.Char_ord"
    "HOL-Library.List_Lexorder" "HOL-Library.AList"
begin

section \<open>Conventions of the embedding\<close>

text \<open>
  The development embeds \<^verbatim>\<open>pysisyphus/calculators/XTB.py\<close>, the adapter that
  drives the external program \<^verbatim>\<open>xtb\<close>.

  \<^item> Python \<^verbatim>\<open>str\<close> is \<^typ>\<open>string\<close>; a character is a code point below 256.
    Strings are ordered as Python orders them, lexicographically by code point
    (\<^verbatim>\<open>List_Lexorder\<close> over \<^verbatim>\<open>Char_ord\<close>).
  \<^item> A Python \<^verbatim>\<open>dict\<close> is an association list with distinct keys, in insertion
    order; \<^const>\<open>AList.update\<close> is item assignment (an existing key keeps its place, a
    new key goes last) and \<^const>\<open>AList.delete\<close> is \<^verbatim>\<open>del\<close>.
  \<^item> A Python \<^verbatim>\<open>float\<close> is modelled by the real number it denotes. Rounding,
    infinities and NaN are outside the model. The conversions between floats and text
    (\<^verbatim>\<open>float(s)\<close>, \<^verbatim>\<open>str(x)\<close>, the \<^verbatim>\<open>% .14e\<close> format) are not defined here:
    every function that uses one takes it as a parameter.
  \<^item> Every exception the module can raise is a value of \<open>error\<close>; a function that can
    raise returns \<open>error + 'a\<close>.
  \<^item> The base class \<^verbatim>\<open>Calculator\<close> (process runner, logging, file naming) is not part
    of the module. Its attributes are fields of the adapter record, its runner is a
    parameter, and what it is asked to do is recorded in a trace of events.
\<close>

datatype error =
    AssertionError string
  | ValueError string
  | TypeError
  | KeyError string
  | FileNotFoundError string
  | UnicodeEncodeError
  | RunError string

section \<open>Text primitives of Python\<close>

text \<open>\<^verbatim>\<open>str.isspace\<close> for a single character below 256; also the class \<^verbatim>\<open>\s\<close>.\<close>

definition is_space :: "char \<Rightarrow> bool" where
  "is_space c \<longleftrightarrow> c \<in> set [CHR 0x09, CHR 0x0A, CHR 0x0B, CHR 0x0C, CHR 0x0D,
     CHR 0x1C, CHR 0x1D, CHR 0x1E, CHR 0x1F, CHR '' '', CHR 0x85, CHR 0xA0]"

text \<open>\<^verbatim>\<open>s.split()\<close>: the maximal runs of non-whitespace characters, in order.
  The first argument is the word read so far.\<close>

fun split_words :: "string \<Rightarrow> string \<Rightarrow> string list" where
  "split_words w [] = (if w = [] then [] else [w])"
| "split_words w (c # cs) =
     (if is_space c then (if w = [] then split_words [] cs else w # split_words [] cs)
      else split_words (w @ [c]) cs)"

definition py_split :: "string \<Rightarrow> string list" where
  "py_split s = split_words [] s"

text \<open>\<^verbatim>\<open>s.strip()\<close>.\<close>

definition py_strip :: "string \<Rightarrow> string" where
  "py_strip s = rev (dropWhile is_space (rev (dropWhile is_space s)))"

text \<open>\<^verbatim>\<open>s.split("\n")\<close> and \<^verbatim>\<open>"\n".join(ls)\<close>.\<close>

fun split_lines :: "string \<Rightarrow> string \<Rightarrow> string list" where
  "split_lines l [] = [l]"
| "split_lines l (c # cs) =
     (if c = CHR ''\<newline>'' then l # split_lines [] cs else split_lines (l @ [c]) cs)"

fun join_lines :: "string list \<Rightarrow> string" where
  "join_lines [] = []"
| "join_lines [l] = l"
| "join_lines (l # ls) = l @ ''\<newline>'' @ join_lines ls"

text \<open>
  \<^verbatim>\<open>textwrap.dedent\<close> of the standard library: a line made of blanks and tabs only
  becomes empty, then the longest run of blanks and tabs that starts every remaining
  non-empty line is removed from each of them.
\<close>

definition is_blank :: "char \<Rightarrow> bool" where
  "is_blank c \<longleftrightarrow> c = CHR '' '' \<or> c = CHR 0x09"

fun common_prefix :: "string \<Rightarrow> string \<Rightarrow> string" where
  "common_prefix (x # xs) (y # ys) = (if x = y then x # common_prefix xs ys else [])"
| "common_prefix _ _ = []"

definition margin_of :: "string list \<Rightarrow> string" where
  "margin_of ls =
     (case map (takeWhile is_blank) (filter (\<lambda>l. l \<noteq> []) ls) of
        [] \<Rightarrow> []
      | i # rest \<Rightarrow> fold (\<lambda>indent margin. common_prefix margin indent) rest i)"

definition dedent :: "string \<Rightarrow> string" where
  "dedent text =
     (let ls = map (\<lambda>l. if list_all is_blank l then [] else l) (split_lines [] text);
          margin = margin_of ls
      in join_lines (map (\<lambda>l. if prefix margin l then drop (length margin) l else l) ls))"

text \<open>\<^verbatim>\<open>textwrap.indent(text, prefix)\<close>: the prefix goes before every line that has a
  character other than whitespace; line ends are kept.\<close>

definition indent :: "string \<Rightarrow> string \<Rightarrow> string" where
  "indent text pre =
     join_lines (map (\<lambda>l. if list_all is_space l then l else pre @ l) (split_lines [] text))"

text \<open>\<^verbatim>\<open>str(n)\<close> for an integer, and the format \<^verbatim>\<open>{n:03d}\<close>.\<close>

function str_nat :: "nat \<Rightarrow> string" where
  "str_nat n = (if n < 10 then [''0123456789'' ! n]
                else str_nat (n div 10) @ [''0123456789'' ! (n mod 10)])"
  by pat_completeness auto
termination
  by (relation "measure id") auto

declare str_nat.simps [simp del]

definition str_int :: "int \<Rightarrow> string" where
  "str_int i = (if i < 0 then CHR ''-'' # str_nat (nat (- i)) else str_nat (nat i))"

definition zfill :: "nat \<Rightarrow> string \<Rightarrow> string" where
  "zfill w s = replicate (w - length s) (CHR ''0'') @ s"

definition fmt_03d :: "int \<Rightarrow> string" where
  "fmt_03d i = (if i < 0 then CHR ''-'' # zfill 2 (str_nat (nat (- i)))
                else zfill 3 (str_nat (nat i)))"

text \<open>\<^verbatim>\<open>re.search\<close> for a pattern without metacharacters: is there a position of the
  text at which the pattern starts?\<close>

fun re_search_literal :: "string \<Rightarrow> string \<Rightarrow> bool" where
  "re_search_literal pat [] = (pat = [])"
| "re_search_literal pat (c # cs) = (prefix pat (c # cs) \<or> re_search_literal pat cs)"

section \<open>The control file\<close>

text \<open>A value of a control-file entry: a boolean, a number or a string.\<close>

datatype xval = XBool bool | XInt int | XFloat real | XStr string

type_synonym entries = "(string \<times> xval) list"
type_synonym options = "(string \<times> entries) list"

text \<open>The value as the f-string prints it; \<open>sf\<close> is \<^verbatim>\<open>str\<close> on floats.\<close>

fun render_val :: "(real \<Rightarrow> string) \<Rightarrow> xval \<Rightarrow> string" where
  "render_val sf (XBool b) = (if b then ''true'' else ''false'')"
| "render_val sf (XInt i) = str_int i"
| "render_val sf (XFloat x) = sf x"
| "render_val sf (XStr s) = s"

text \<open>The inner and the outer loop of \<^verbatim>\<open>format_xcontrol\<close>; \<open>inp\<close> is the text so far.\<close>

fun format_entries :: "(real \<Rightarrow> string) \<Rightarrow> string \<Rightarrow> entries \<Rightarrow> string" where
  "format_entries sf inp [] = inp"
| "format_entries sf inp ((key, v) # es) =
     format_entries sf (inp @ ''    '' @ key @ ''='' @ render_val sf v @ ''\<newline>'') es"

fun format_sections :: "(real \<Rightarrow> string) \<Rightarrow> string \<Rightarrow> options \<Rightarrow> string" where
  "format_sections sf inp [] = inp"
| "format_sections sf inp ((section, es) # ss) =
     format_sections sf
       (format_entries sf (inp @ ''$'' @ section @ ''\<newline>'') (sort_key fst es) @ ''$end\<newline>'')
       ss"

definition format_xcontrol :: "(real \<Rightarrow> string) \<Rightarrow> options \<Rightarrow> string" where
  "format_xcontrol sf opts = dedent (py_strip (format_sections sf [] (sort_key fst opts)))"

section \<open>The adapter and its environment\<close>

text \<open>Arguments of one call of the base class's \<^verbatim>\<open>run\<close>; a keyword that the call
  does not pass is \<open>None\<close>.\<close>

record run_request =
  req_inp :: string
  req_calc :: string
  req_add_args :: "string list option"
  req_cmd :: "string list option"
  req_env :: "(string \<times> string) list"
  req_keep :: "bool option"
  req_keep_log :: "bool option"

text \<open>What the adapter asks of its environment, in the order it asks. File names are
  relative to the working directory that \<^verbatim>\<open>prepare_path\<close> returned.\<close>

datatype event =
    PreparePath
  | Log string
  | WriteFile string string
  | CopyFile string string
  | SavePcFile "real list list" string int
  | Run run_request

text \<open>A string or a \<^verbatim>\<open>pathlib.Path\<close>: an empty string is false, a path is always true.\<close>

datatype pathlike = PStr string | PPath string

fun path_str :: "pathlike \<Rightarrow> string" where
  "path_str (PStr s) = s"
| "path_str (PPath s) = s"

fun path_truthy :: "pathlike option \<Rightarrow> bool" where
  "path_truthy None = False"
| "path_truthy (Some (PStr s)) = (s \<noteq> [])"
| "path_truthy (Some (PPath s)) = True"

text \<open>A number given as an \<^verbatim>\<open>int\<close> or as a \<^verbatim>\<open>float\<close>, its truth value and its text.\<close>

datatype number = NInt int | NFloat real

fun number_truthy :: "number \<Rightarrow> bool" where
  "number_truthy (NInt i) = (i \<noteq> 0)"
| "number_truthy (NFloat x) = (x \<noteq> 0)"

fun str_number :: "(real \<Rightarrow> string) \<Rightarrow> number \<Rightarrow> string" where
  "str_number sf (NInt i) = str_int i"
| "str_number sf (NFloat x) = sf x"

text \<open>The Hamiltonian level: \<^verbatim>\<open>0\<close>, \<^verbatim>\<open>1\<close>, \<^verbatim>\<open>2\<close> or \<^verbatim>\<open>"ff"\<close>.\<close>

datatype gfn_level = GfnInt int | GfnStr string

fun str_gfn :: "gfn_level \<Rightarrow> string" where
  "str_gfn (GfnInt i) = str_int i"
| "str_gfn (GfnStr s) = s"

text \<open>Attributes that the base class \<^verbatim>\<open>Calculator\<close> sets from the keyword arguments,
  the command that its \<^verbatim>\<open>get_cmd()\<close> returns, and the trace of events.\<close>

record calculator =
  charge :: int
  mult :: int
  pal :: int
  mem :: int
  calc_number :: int
  cmd :: string
  trace :: "event list"

text \<open>The arguments of \<^verbatim>\<open>XTB.__init__\<close>; each is stored under its own name.
  The field \<open>topo_interval\<close> is the attribute \<^verbatim>\<open>topo_update\<close>, whose name the record
  package gives to the update function of \<open>topo\<close>.\<close>

record xtb_args = calculator +
  gbsa :: string
  alpb :: string
  gfn :: gfn_level
  acc :: real
  iterations :: int
  etemp :: "number option"
  retry_etemp :: "number option"
  restart :: bool
  xtb_options :: options
  topo :: "pathlike option"
  topo_interval :: "int option"
  quiet :: bool

text \<open>The attributes \<^verbatim>\<open>__init__\<close> adds. The table \<^verbatim>\<open>parser_funcs\<close> is read by the
  base class only and is left out.\<close>

record xtb = xtb_args +
  topo_used :: int
  xtbrestart :: "pathlike option"
  uhf :: int
  inp_fn :: string
  out_fn :: string
  to_keep :: "string list"
  base_cmd :: string

definition valid_gfns :: "gfn_level list" where
  "valid_gfns = [GfnInt 0, GfnInt 1, GfnInt 2, GfnStr ''ff'']"

definition etemp_message :: string where
  "etemp_message = ''Using 'etemp' and 'retry_etemp' simultaneously is not possible!''"

text \<open>
  \<^verbatim>\<open>XTB.__init__\<close>, after the base class's constructor. A level outside
  \<^verbatim>\<open>valid_gfns\<close> fails the second assertion, whose message joins the tuple
  \<^verbatim>\<open>(0, 1, 2, "ff")\<close> with \<^verbatim>\<open>", "\<close>: that raises \<^verbatim>\<open>TypeError\<close> before the
  assertion error is built.
\<close>

definition init :: "xtb_args \<Rightarrow> error + xtb" where
  "init a =
     (if etemp a \<noteq> None \<and> retry_etemp a \<noteq> None then Inl (AssertionError etemp_message)
      else if gfn a \<notin> set valid_gfns then Inl TypeError
      else Inr (xtb_args.extend a
        \<lparr> topo_used = 0,
          xtbrestart = None,
          uhf = mult a - 1,
          inp_fn = ''xtb.xyz'',
          out_fn = ''xtb.out'',
          to_keep =
            (if quiet a then []
             else [''out:xtb.out'', ''gradient'', ''xtbopt.xyz'', ''g98.out'', ''xtb.trj'',
                   ''charges:charges'', ''xcontrol'']
                  @ (if restart a then [''xtbrestart''] else [])),
          base_cmd = cmd a \<rparr>))"

text \<open>\<^verbatim>\<open>self.log(msg)\<close> and the other requests append to the trace.\<close>

definition emit :: "event \<Rightarrow> xtb \<Rightarrow> xtb" where
  "emit e self = self\<lparr>trace := trace self @ [e]\<rparr>"

text \<open>
  What the module imports or inherits and does not define:
  \<^verbatim>\<open>str\<close> on a float and on a list of strings, the format \<^verbatim>\<open>% .14e\<close>, the two
  unit constants, \<^verbatim>\<open>make_xyz_str\<close>, the base class's \<^verbatim>\<open>make_fn\<close>,
  \<^verbatim>\<open>os.environ\<close>, and the base class's \<^verbatim>\<open>run\<close>. The runner is one method in
  Python; here it has one field for each type of result it hands back: a dictionary of
  results, the dictionary of a topology run, the geometries of a dynamics run.
\<close>

record ('r, 'g) calc_env =
  str_float :: "real \<Rightarrow> string"
  str_list :: "string list \<Rightarrow> string"
  fmt_e14 :: "real \<Rightarrow> string"
  BOHR2ANG :: real
  BOHRPERFS2AU :: real
  make_xyz_str :: "string list \<Rightarrow> real list list \<Rightarrow> string"
  make_fn :: "xtb \<Rightarrow> string \<Rightarrow> string"
  environ :: "(string \<times> string) list"
  run_results :: "xtb \<Rightarrow> run_request \<Rightarrow> error + (string \<times> 'r) list"
  run_topology :: "xtb \<Rightarrow> run_request \<Rightarrow> error + (string \<times> pathlike) list"
  run_geoms :: "xtb \<Rightarrow> run_request \<Rightarrow> error + 'g"

text \<open>\<^verbatim>\<open>a.reshape((-1, 3))\<close> of a flat array: rows of three, or \<^verbatim>\<open>ValueError\<close>.\<close>

fun rows3 :: "'a list \<Rightarrow> 'a list list" where
  "rows3 (x # y # z # rest) = [x, y, z] # rows3 rest"
| "rows3 _ = []"

definition reshape3 :: "'a list \<Rightarrow> error + 'a list list" where
  "reshape3 xs = (if length xs mod 3 = 0 then Inr (rows3 xs)
                  else Inl (ValueError ''cannot reshape array''))"

definition prepare_coords :: "('r, 'g) calc_env \<Rightarrow> string list \<Rightarrow> real list \<Rightarrow> error + string" where
  "prepare_coords env atoms coords =
     (case reshape3 (map (\<lambda>c. c * BOHR2ANG env) coords) of
        Inl e \<Rightarrow> Inl e
      | Inr coords3d \<Rightarrow> Inr (make_xyz_str env atoms coords3d))"

definition get_pal_env :: "('r, 'g) calc_env \<Rightarrow> xtb \<Rightarrow> (string \<times> string) list" where
  "get_pal_env env self =
     AList.update ''OMP_STACKSIZE'' (str_int (mem self) @ ''M'')
       (AList.update ''MKL_NUM_THREADS'' (str_int (pal self))
         (AList.update ''OMP_NUM_THREADS'' (str_int (pal self)) (environ env)))"

text \<open>\<^verbatim>\<open>prepare_add_args\<close>; \<open>sf\<close> is \<^verbatim>\<open>str\<close> on floats.\<close>

definition prepare_add_args :: "(real \<Rightarrow> string) \<Rightarrow> xtb \<Rightarrow> string list" where
  "prepare_add_args sf self =
     (let add_args = py_split (''--input xcontrol --chrg '' @ str_int (charge self)
            @ '' --uhf '' @ str_int (uhf self) @ '' --acc '' @ sf (acc self)
            @ '' --iterations '' @ str_int (iterations self));
          add_args = (case etemp self of
              None \<Rightarrow> add_args
            | Some e \<Rightarrow> if number_truthy e
                then add_args @ py_split (''--etemp '' @ str_number sf e) else add_args);
          add_args =
            (if gbsa self \<noteq> [] then add_args @ py_split (''--gbsa '' @ gbsa self)
             else if alpb self \<noteq> [] then add_args @ py_split (''--alpb '' @ alpb self)
             else add_args);
          gfn_args = (if gfn self = GfnStr ''ff'' then [''--gfnff'']
                      else py_split (''--gfn '' @ str_gfn (gfn self)))
      in add_args @ gfn_args)"

definition get_retry_args :: "(real \<Rightarrow> string) \<Rightarrow> xtb \<Rightarrow> string list \<times> xtb" where
  "get_retry_args sf self =
     (case retry_etemp self of
        None \<Rightarrow> ([], self)
      | Some e \<Rightarrow>
          (py_split (''--etemp '' @ str_number sf e),
           emit (Log (''Retrying calculation with increased etemp='' @ str_number sf e)) self))"

section \<open>Staging the input\<close>

definition run_topo ::
  "('r, 'g) calc_env \<Rightarrow> xtb \<Rightarrow> string list \<Rightarrow> real list
    \<Rightarrow> (error + (string \<times> pathlike) list) \<times> xtb" where
  "run_topo env self atoms coords =
     (case prepare_coords env atoms coords of
        Inl e \<Rightarrow> (Inl e, self)
      | Inr inp \<Rightarrow>
          (let req = \<lparr> req_inp = inp, req_calc = ''topo'', req_add_args = None,
                       req_cmd = Some [base_cmd self, ''topo''],
                       req_env = get_pal_env env self,
                       req_keep = None, req_keep_log = None \<rparr>
           in (run_topology env self req, emit (Run req) self)))"

text \<open>\<^verbatim>\<open>prepare_input\<close>, first part: the control file is assembled and written.\<close>

definition write_xcontrol :: "('r, 'g) calc_env \<Rightarrow> xtb \<Rightarrow> real list list option \<Rightarrow> xtb" where
  "write_xcontrol env self point_charges =
     (let self = emit PreparePath self;
          xcontrol = [(''write'', [(''json'', XBool True)])];
          (xcontrol, self) =
            (case point_charges of
               None \<Rightarrow> (xcontrol, self)
             | Some pc \<Rightarrow>
                 (let pc_fn = make_fn env self ''pointcharges_inp.pc''
                  in (AList.update ''embedding''
                        [(''input'', XStr pc_fn), (''interface'', XStr ''orca'')] xcontrol,
                      emit (SavePcFile pc pc_fn 99) self)));
          xcontrol = fold (\<lambda>(section, es). AList.update section es) (xtb_options self) xcontrol
      in emit (WriteFile ''xcontrol'' (format_xcontrol (str_float env) xcontrol)) self)"

text \<open>The condition of the topology update: the counter is positive, the interval is
  true (neither \<^verbatim>\<open>None\<close> nor 0) and divides the counter.\<close>

definition topo_due :: "xtb \<Rightarrow> bool" where
  "topo_due self \<longleftrightarrow>
     topo_used self > 0 \<and>
     (case topo_interval self of None \<Rightarrow> False | Some n \<Rightarrow> n \<noteq> 0 \<and> topo_used self mod n = 0)"

text \<open>Second part: the topology is recreated when the condition holds.\<close>

definition refresh_topology ::
  "('r, 'g) calc_env \<Rightarrow> xtb \<Rightarrow> string list \<Rightarrow> real list \<Rightarrow> (error + unit) \<times> xtb" where
  "refresh_topology env self atoms coords =
     (if topo_due self then
        (case run_topo env self atoms coords of
           (Inl e, self) \<Rightarrow> (Inl e, self)
         | (Inr results, self) \<Rightarrow>
             (case map_of results ''topo'' of
                None \<Rightarrow> (Inl (KeyError ''topo''), self)
              | Some t \<Rightarrow>
                  (Inr (),
                   emit (Log (''Updated topology! Saved to '' @ [CHR 0x27] @ path_str t
                              @ [CHR 0x27] @ ''.''))
                     (self\<lparr>topo := Some t\<rparr>))))
      else (Inr (), self))"

text \<open>Third part: a topology that is set is copied and counted.\<close>

definition use_topology :: "xtb \<Rightarrow> xtb" where
  "use_topology self =
     (case topo self of
        None \<Rightarrow> self
      | Some t \<Rightarrow>
          if path_truthy (Some t) then
            (let self = emit (CopyFile (path_str t) ''gfnff_topo'') self;
                 self = emit (Log (''Using toplogy given in '' @ path_str t @ ''.'')) self
             in self\<lparr>topo_used := topo_used self + 1\<rparr>)
          else self)"

text \<open>Last part: a restart file that is set is copied.\<close>

definition use_xtbrestart :: "xtb \<Rightarrow> xtb" where
  "use_xtbrestart self =
     (case xtbrestart self of
        None \<Rightarrow> self
      | Some r \<Rightarrow>
          emit (Log (''Using xtbrestart given in '' @ path_str r @ ''.''))
            (emit (CopyFile (path_str r) ''xtbrestart'') self))"

definition prepare_input ::
  "('r, 'g) calc_env \<Rightarrow> xtb \<Rightarrow> string list \<Rightarrow> real list \<Rightarrow> string
    \<Rightarrow> real list list option \<Rightarrow> (error + unit) \<times> xtb" where
  "prepare_input env self atoms coords calc_type point_charges =
     (case refresh_topology env (write_xcontrol env self point_charges) atoms coords of
        (Inl e, self) \<Rightarrow> (Inl e, self)
      | (Inr u, self) \<Rightarrow> (Inr (), use_xtbrestart (use_topology self)))"

section \<open>Running calculations\<close>

definition get_forces ::
  "('r, 'g) calc_env \<Rightarrow> xtb \<Rightarrow> string list \<Rightarrow> real list \<Rightarrow> real list list option
    \<Rightarrow> (error + (string \<times> 'r) list) \<times> xtb" where
  "get_forces env self atoms coords point_charges =
     (case prepare_input env self atoms coords ''forces'' point_charges of
        (Inl e, self) \<Rightarrow> (Inl e, self)
      | (Inr u, self) \<Rightarrow>
          (case prepare_coords env atoms coords of
             Inl e \<Rightarrow> (Inl e, self)
           | Inr inp \<Rightarrow>
               (let add_args = prepare_add_args (str_float env) self @ [''--grad''];
                    self = emit (Log (''Executing '' @ base_cmd self @ '' ''
                                      @ str_list env add_args)) self;
                    req = \<lparr> req_inp = inp, req_calc = ''grad'', req_add_args = Some add_args,
                            req_cmd = None, req_env = get_pal_env env self,
                            req_keep = None, req_keep_log = None \<rparr>
                in (run_results env self req, emit (Run req) self))))"

definition get_hessian ::
  "('r, 'g) calc_env \<Rightarrow> xtb \<Rightarrow> string list \<Rightarrow> real list \<Rightarrow> real list list option
    \<Rightarrow> (error + (string \<times> 'r) list) \<times> xtb" where
  "get_hessian env self atoms coords point_charges =
     (case prepare_input env self atoms coords ''hessian'' point_charges of
        (Inl e, self) \<Rightarrow> (Inl e, self)
      | (Inr u, self) \<Rightarrow>
          (case prepare_coords env atoms coords of
             Inl e \<Rightarrow> (Inl e, self)
           | Inr inp \<Rightarrow>
               (let add_args = prepare_add_args (str_float env) self @ [''--hess''];
                    self = emit (Log (''Executing '' @ base_cmd self @ '' ''
                                      @ str_list env add_args)) self;
                    req = \<lparr> req_inp = inp, req_calc = ''hess'', req_add_args = Some add_args,
                            req_cmd = None, req_env = get_pal_env env self,
                            req_keep = None, req_keep_log = None \<rparr>
                in (run_results env self req, emit (Run req) self))))"

text \<open>\<^verbatim>\<open>get_energy\<close>: \<^verbatim>\<open>del results["forces"]\<close> raises \<^verbatim>\<open>KeyError\<close> on a dictionary
  without that key.\<close>

definition get_energy ::
  "('r, 'g) calc_env \<Rightarrow> xtb \<Rightarrow> string list \<Rightarrow> real list \<Rightarrow> real list list option
    \<Rightarrow> (error + (string \<times> 'r) list) \<times> xtb" where
  "get_energy env self atoms coords point_charges =
     (case get_forces env self atoms coords point_charges of
        (Inl e, self) \<Rightarrow> (Inl e, self)
      | (Inr results, self) \<Rightarrow>
          (case map_of results ''forces'' of
             None \<Rightarrow> (Inl (KeyError ''forces''), self)
           | Some f \<Rightarrow> (Inr (AList.delete ''forces'' results), self)))"

definition run_calculation ::
  "('r, 'g) calc_env \<Rightarrow> xtb \<Rightarrow> string list \<Rightarrow> real list \<Rightarrow> real list list option
    \<Rightarrow> (error + (string \<times> 'r) list) \<times> xtb" where
  "run_calculation env self atoms coords point_charges =
     get_energy env self atoms coords point_charges"

section \<open>Molecular dynamics\<close>

text \<open>\<^verbatim>\<open>get_mdrestart_str\<close>: a row of coordinates beside its row of velocities, every
  number printed by \<open>fmt\<close> (the format \<^verbatim>\<open>% .14e\<close>), the numbers of a row separated by
  one blank as \<^verbatim>\<open>savetxt\<close> does, \<^verbatim>\<open>e\<close> replaced by \<^verbatim>\<open>D\<close>, the line \<^verbatim>\<open>-1.0\<close>
  first, every line indented by one blank.\<close>

fun join_blank :: "string list \<Rightarrow> string" where
  "join_blank [] = []"
| "join_blank [w] = w"
| "join_blank (w # ws) = w @ '' '' @ join_blank ws"

definition get_mdrestart_str :: "(real \<Rightarrow> string) \<Rightarrow> real list list \<Rightarrow> real list list \<Rightarrow> string" where
  "get_mdrestart_str fmt coords velocities =
     (let vals = map2 (@) coords velocities;
          mdrestart = concat (map (\<lambda>row. join_blank (map fmt row) @ ''\<newline>'') vals);
          mdrestart = ''-1.0\<newline>'' @ map (\<lambda>c. if c = CHR ''e'' then CHR ''D'' else c) mdrestart
      in indent mdrestart '' '')"

text \<open>\<^verbatim>\<open>write_mdrestart\<close>: the file is opened for writing, then the text is encoded
  as ASCII, which fails on a character from 128 on.\<close>

definition write_mdrestart :: "xtb \<Rightarrow> string \<Rightarrow> (error + unit) \<times> xtb" where
  "write_mdrestart self mdrestart_str =
     (if list_all (\<lambda>c. (of_char c :: nat) < 128) mdrestart_str
      then (Inr (), emit (WriteFile ''mdrestart'' mdrestart_str) self)
      else (Inl UnicodeEncodeError, emit (WriteFile ''mdrestart'' []) self))"

definition shape_message :: string where
  "shape_message = ''Shape of coordinates and velocities doesn't match!''"

text \<open>The first block of \<^verbatim>\<open>run_md\<close>: the value of \<^verbatim>\<open>restart\<close>. Two arrays of rows
  of three have the same shape when they have the same number of rows.\<close>

definition stage_velocities ::
  "('r, 'g) calc_env \<Rightarrow> xtb \<Rightarrow> real list \<Rightarrow> real list option \<Rightarrow> (error + string) \<times> xtb" where
  "stage_velocities env self coords velocities =
     (case velocities of
        None \<Rightarrow> (Inr ''false'', self)
      | Some v \<Rightarrow>
          (case reshape3 coords of
             Inl e \<Rightarrow> (Inl e, self)
           | Inr coords3d \<Rightarrow>
               (case reshape3 v of
                  Inl e \<Rightarrow> (Inl e, self)
                | Inr v3d \<Rightarrow>
                    (let velocities3d = map (map (\<lambda>x. x * BOHRPERFS2AU env)) v3d
                     in if length coords3d \<noteq> length velocities3d
                        then (Inl (AssertionError shape_message), self)
                        else
                          (case write_mdrestart self
                                  (get_mdrestart_str (fmt_e14 env) coords3d velocities3d) of
                             (Inl e, self) \<Rightarrow> (Inl e, self)
                           | (Inr u, self) \<Rightarrow> (Inr ''true'', self))))))"

definition md_options :: "string \<Rightarrow> real \<Rightarrow> number \<Rightarrow> int \<Rightarrow> options" where
  "md_options restart_flag t dt dump =
     [(''md'',
       [(''hmass'', XInt 1),
        (''dump'', XInt dump),
        (''nvt'', XBool False),
        (''restart'', XStr restart_flag),
        (''time'', XFloat (t / 1000)),
        (''shake'', XInt 0),
        (''step'', (case dt of NInt i \<Rightarrow> XInt i | NFloat x \<Rightarrow> XFloat x)),
        (''velo'', XBool False)])]"

definition run_md ::
  "('r, 'g) calc_env \<Rightarrow> xtb \<Rightarrow> string list \<Rightarrow> real list \<Rightarrow> real \<Rightarrow> number
    \<Rightarrow> real list option \<Rightarrow> int \<Rightarrow> (error + 'g) \<times> xtb" where
  "run_md env self atoms coords t dt velocities dump =
     (case stage_velocities env (emit PreparePath self) coords velocities of
        (Inl e, self) \<Rightarrow> (Inl e, self)
      | (Inr restart_flag, self) \<Rightarrow>
          (let opts = fold (\<lambda>(section, es). AList.update section es) (xtb_options self)
                        (md_options restart_flag t dt dump);
               self = emit (WriteFile ''xcontrol'' (format_xcontrol (str_float env) opts)) self
           in case prepare_coords env atoms coords of
                Inl e \<Rightarrow> (Inl e, self)
              | Inr inp \<Rightarrow>
                  (let add_args = prepare_add_args (str_float env) self
                                    @ [''--input'', ''xcontrol'', ''--md''];
                       self = emit (Log (''Executing '' @ base_cmd self @ '' ''
                                         @ str_list env add_args)) self;
                       req = \<lparr> req_inp = inp, req_calc = ''md'',
                               req_add_args = Some add_args, req_cmd = None,
                               req_env = get_pal_env env self,
                               req_keep = Some True, req_keep_log = None \<rparr>
                   in (run_geoms env self req, emit (Run req) self))))"

section \<open>Parsers\<close>

text \<open>The directory a parser receives: the text of each file in it, by name.\<close>

type_synonym dir = "string \<Rightarrow> string option"

text \<open>
  The pattern \<^verbatim>\<open>TOTAL ENERGY\s*([-\d\.]+) Eh\<close> at the start of a text. Whitespace and
  the characters of the group are disjoint classes and the blank after the group is in
  neither class of its neighbours' alternatives, so the greedy match is the only one:
  all the whitespace, then all the characters of the group, then \<^verbatim>\<open> Eh\<close>.
\<close>

definition is_digit :: "char \<Rightarrow> bool" where
  "is_digit c \<longleftrightarrow> c \<in> set ''0123456789''"

definition is_energy_char :: "char \<Rightarrow> bool" where
  "is_energy_char c \<longleftrightarrow> c = CHR ''-'' \<or> is_digit c \<or> c = CHR ''.''"

definition match_energy :: "string \<Rightarrow> string option" where
  "match_energy s =
     (if prefix ''TOTAL ENERGY'' s then
        (let r = dropWhile is_space (drop (length ''TOTAL ENERGY'') s);
             g = takeWhile is_energy_char r
         in if g \<noteq> [] \<and> prefix '' Eh'' (dropWhile is_energy_char r) then Some g else None)
      else None)"

text \<open>\<^verbatim>\<open>re.search\<close>: the match at the first position that has one.\<close>

fun search_energy :: "string \<Rightarrow> string option" where
  "search_energy [] = None"
| "search_energy (c # cs) =
     (case match_energy (c # cs) of Some g \<Rightarrow> Some g | None \<Rightarrow> search_energy cs)"

text \<open>\<^verbatim>\<open>parse_energy\<close>; \<open>fl\<close> is \<^verbatim>\<open>float\<close> on a string, \<open>None\<close> where it raises.
  Subscripting the \<^verbatim>\<open>None\<close> of a failed search raises \<^verbatim>\<open>TypeError\<close>.\<close>

definition parse_energy :: "(string \<Rightarrow> real option) \<Rightarrow> xtb \<Rightarrow> dir \<Rightarrow> error + real" where
  "parse_energy fl self path =
     (case path (out_fn self) of
        None \<Rightarrow> Inl (FileNotFoundError (out_fn self))
      | Some text \<Rightarrow>
          (case search_energy text of
             None \<Rightarrow> Inl TypeError
           | Some g \<Rightarrow>
               (case fl g of
                  None \<Rightarrow> Inl (ValueError ''could not convert string to float'')
                | Some energy \<Rightarrow> Inr energy)))"

text \<open>\<^verbatim>\<open>geom_loader(path / name)\<close>; \<open>loader\<close> reads a geometry from the text of a
  file.\<close>

definition geom_loader :: "(string \<Rightarrow> error + 'g) \<Rightarrow> dir \<Rightarrow> string \<Rightarrow> error + 'g" where
  "geom_loader loader path name =
     (case path name of None \<Rightarrow> Inl (FileNotFoundError name) | Some text \<Rightarrow> loader text)"

text \<open>\<^verbatim>\<open>OptResult\<close>; the field \<open>opt_geom_energy\<close> is the attribute \<^verbatim>\<open>energy\<close> that
  \<^verbatim>\<open>parse_opt\<close> sets on the geometry.\<close>

record 'g OptResult =
  opt_geom :: 'g
  opt_geom_energy :: real
  opt_log :: "'g option"

definition parse_opt ::
  "(string \<Rightarrow> real option) \<Rightarrow> (string \<Rightarrow> error + 'g) \<Rightarrow> xtb \<Rightarrow> dir \<Rightarrow> bool
    \<Rightarrow> (error + 'g OptResult option) \<times> xtb" where
  "parse_opt fl loader self path keep_log =
     (case path ''xtbopt.xyz'' of
        None \<Rightarrow> (Inr None, emit (Log (fmt_03d (calc_number self) @ '' failed'')) self)
      | Some xyz \<Rightarrow>
          (case loader xyz of
             Inl e \<Rightarrow> (Inl e, self)
           | Inr g \<Rightarrow>
               (case parse_energy fl self path of
                  Inl e \<Rightarrow> (Inl e, self)
                | Inr energy \<Rightarrow>
                    (if keep_log then
                       (case geom_loader loader path ''xtbopt.log'' of
                          Inl e \<Rightarrow> (Inl e, self)
                        | Inr lg \<Rightarrow>
                            (Inr (Some \<lparr> opt_geom = g, opt_geom_energy = energy,
                                         opt_log = Some lg \<rparr>), self))
                     else (Inr (Some \<lparr> opt_geom = g, opt_geom_energy = energy,
                                       opt_log = None \<rparr>), self)))))"

text \<open>\<^verbatim>\<open>np.array(tokens, dtype=float)\<close>: every token is converted, the first that is
  no number raises.\<close>

fun floats_of :: "(string \<Rightarrow> real option) \<Rightarrow> string list \<Rightarrow> error + real list" where
  "floats_of fl [] = Inr []"
| "floats_of fl (w # ws) =
     (case fl w of
        None \<Rightarrow> Inl (ValueError ''could not convert string to float'')
      | Some x \<Rightarrow> (case floats_of fl ws of Inl e \<Rightarrow> Inl e | Inr xs \<Rightarrow> Inr (x # xs)))"

text \<open>\<^verbatim>\<open>int(n ** 0.5)\<close>: the largest \<open>k\<close> with \<open>k * k \<le> n\<close>, searched downwards from
  \<open>n\<close>. (The floating-point power is exact on the squares and off by less than one
  elsewhere for every size a file can have.)\<close>

fun isqrt_down :: "nat \<Rightarrow> nat \<Rightarrow> nat" where
  "isqrt_down n 0 = 0"
| "isqrt_down n (Suc k) = (if Suc k * Suc k \<le> n then Suc k else isqrt_down n k)"

definition isqrt :: "nat \<Rightarrow> nat" where
  "isqrt n = isqrt_down n n"

text \<open>\<^verbatim>\<open>a.reshape(n, n)\<close> of a flat array: \<open>n\<close> rows of \<open>n\<close>, or \<^verbatim>\<open>ValueError\<close> when the
  array does not have \<open>n * n\<close> elements.\<close>

definition reshape_square :: "nat \<Rightarrow> 'a list \<Rightarrow> error + 'a list list" where
  "reshape_square n xs =
     (if n * n = length xs then Inr (map (\<lambda>i. take n (drop (i * n) xs)) [0..<n])
      else Inl (ValueError ''cannot reshape array''))"

text \<open>The dictionary \<^verbatim>\<open>parse_hessian\<close> returns, with its two keys.\<close>

record hessian_results =
  energy :: real
  hessian :: "real list list"

definition parse_hessian ::
  "(string \<Rightarrow> real option) \<Rightarrow> xtb \<Rightarrow> dir \<Rightarrow> error + hessian_results" where
  "parse_hessian fl self path =
     (case path ''hessian'' of
        None \<Rightarrow> Inl (FileNotFoundError ''hessian'')
      | Some text \<Rightarrow>
          (case floats_of fl (drop 1 (py_split text)) of
             Inl e \<Rightarrow> Inl e
           | Inr flat \<Rightarrow>
               (let coord_num = isqrt (length flat)
                in case reshape_square coord_num flat of
                     Inl e \<Rightarrow> Inl e
                   | Inr square \<Rightarrow>
                       (case parse_energy fl self path of
                          Inl e \<Rightarrow> Inl e
                        | Inr en \<Rightarrow> Inr \<lparr> energy = en, hessian = square \<rparr>))))"

section \<open>The termination check\<close>

text \<open>The body of \<^verbatim>\<open>check_termination\<close>, which receives the text.\<close>

definition check_termination_text :: "string \<Rightarrow> bool" where
  "check_termination_text text = re_search_literal ''finished run on'' text"

text \<open>
  Modelled from the spec: the decorator \<^verbatim>\<open>file_or_str\<close> of
  \<^verbatim>\<open>pysisyphus.helpers_pure\<close> is not among the sources. The spec says the operation
  "accepts either a file path or raw text content": a path is replaced by the content of
  the file it names, raw text is passed on as it is. What a path to no file does is not
  said; the model raises.
\<close>

datatype file_or_text = FilePath string | RawText string

definition file_or_str :: "(string \<Rightarrow> string option) \<Rightarrow> (string \<Rightarrow> 'a) \<Rightarrow> file_or_text \<Rightarrow> error + 'a" where
  "file_or_str fs func inp =
     (case inp of
        RawText text \<Rightarrow> Inr (func text)
      | FilePath p \<Rightarrow> (case fs p of None \<Rightarrow> Inl (FileNotFoundError p) | Some text \<Rightarrow> Inr (func text)))"

definition check_termination :: "(string \<Rightarrow> string option) \<Rightarrow> file_or_text \<Rightarrow> error + bool" where
  "check_termination fs inp = file_or_str fs check_termination_text inp"

section \<open>Notions used in the statements\<close>

text \<open>A text that \<^verbatim>\<open>split()\<close> keeps as one word: not empty, no whitespace.\<close>

definition one_word :: "string \<Rightarrow> bool" where
  "one_word w \<longleftrightarrow> w \<noteq> [] \<and> list_all (\<lambda>c. \<not> is_space c) w"

text \<open>The words that an electronic temperature contributes to the argument list.\<close>

definition etemp_args :: "(real \<Rightarrow> string) \<Rightarrow> number option \<Rightarrow> string list" where
  "etemp_args sf t =
     (case t of
        None \<Rightarrow> []
      | Some e \<Rightarrow> if number_truthy e then ''--etemp'' # py_split (str_number sf e) else [])"

text \<open>A text that \<^verbatim>\<open>encode("ascii")\<close> accepts.\<close>

definition is_ascii :: "string \<Rightarrow> bool" where
  "is_ascii s \<longleftrightarrow> list_all (\<lambda>c. (of_char c :: nat) < 128) s"

text \<open>The request of a run, among the events.\<close>

fun is_run :: "event \<Rightarrow> bool" where
  "is_run (Run req) = True"
| "is_run _ = False"

text \<open>The request of a topology run, among the events.\<close>

fun is_topo_run :: "event \<Rightarrow> bool" where
  "is_topo_run (Run req) = (req_calc req = ''topo'')"
| "is_topo_run _ = False"

text \<open>The events that came after those of \<open>s\<close>, and whether one invocation of
  \<^verbatim>\<open>prepare_input\<close> on \<open>s\<close> recreates the topology.\<close>

definition new_events :: "xtb \<Rightarrow> xtb \<Rightarrow> event list" where
  "new_events s s' = drop (length (trace s)) (trace s')"

definition rebuilds ::
  "('r, 'g) calc_env \<Rightarrow> xtb \<Rightarrow> string list \<Rightarrow> real list \<Rightarrow> string
    \<Rightarrow> real list list option \<Rightarrow> bool" where
  "rebuilds env s atoms coords calc_type pc \<longleftrightarrow>
     list_ex is_topo_run (new_events s (snd (prepare_input env s atoms coords calc_type pc)))"

text \<open>\<open>n\<close> invocations of \<^verbatim>\<open>prepare_input\<close>, one after the other, with the same
  arguments; an exception ends the sequence.\<close>

fun prepare_input_times ::
  "('r, 'g) calc_env \<Rightarrow> nat \<Rightarrow> xtb \<Rightarrow> string list \<Rightarrow> real list \<Rightarrow> string
    \<Rightarrow> real list list option \<Rightarrow> (error + unit) \<times> xtb" where
  "prepare_input_times env 0 s atoms coords calc_type pc = (Inr (), s)"
| "prepare_input_times env (Suc n) s atoms coords calc_type pc =
     (case prepare_input_times env n s atoms coords calc_type pc of
        (Inl e, s') \<Rightarrow> (Inl e, s')
      | (Inr u, s') \<Rightarrow> prepare_input env s' atoms coords calc_type pc)"

text \<open>A runner whose topology runs succeed and hand back the path that
  \<^verbatim>\<open>parse_topo\<close> made with \<^verbatim>\<open>make_fn\<close>.\<close>

definition topo_runs_ok :: "('r, 'g) calc_env \<Rightarrow> bool" where
  "topo_runs_ok env \<longleftrightarrow>
     (\<forall>s req. \<exists>res p. run_topology env s req = Inr res \<and> map_of res ''topo'' = Some (PPath p))"

text \<open>The request that \<^verbatim>\<open>run_topo\<close> hands to the runner.\<close>

definition topo_request ::
  "('r, 'g) calc_env \<Rightarrow> xtb \<Rightarrow> string list \<Rightarrow> real list \<Rightarrow> run_request" where
  "topo_request env s atoms coords =
     \<lparr> req_inp = make_xyz_str env atoms (rows3 (map (\<lambda>c. c * BOHR2ANG env) coords)),
       req_calc = ''topo'', req_add_args = None,
       req_cmd = Some [base_cmd s, ''topo''],
       req_env = get_pal_env env s,
       req_keep = None, req_keep_log = None \<rparr>"

section \<open>Concrete instances for evaluation\<close>

text \<open>The defaults of \<^verbatim>\<open>XTB.__init__\<close>, with the base class's attributes of a neutral
  singlet on one core.\<close>

definition default_args :: xtb_args where
  "default_args =
     \<lparr> charge = 0, mult = 1, pal = 1, mem = 1000, calc_number = 0, cmd = ''xtb'', trace = [],
       gbsa = [], alpb = [], gfn = GfnInt 2, acc = 1, iterations = 250,
       etemp = None, retry_etemp = None, restart = False, xtb_options = [],
       topo = None, topo_interval = None, quiet = False \<rparr>"

text \<open>\<^verbatim>\<open>str\<close> on a float whose value is a whole number of at most fifteen digits:
  the integer, then \<^verbatim>\<open>.0\<close>. It stands for \<^verbatim>\<open>str\<close> where a statement is evaluated.\<close>

definition str_float_integral :: "real \<Rightarrow> string" where
  "str_float_integral x = str_int \<lfloor>x\<rfloor> @ ''.0''"

text \<open>\<^verbatim>\<open>float\<close> on a plain decimal literal (an optional minus sign, digits, an
  optional point and digits), with its exact value. It stands for \<^verbatim>\<open>float\<close> where a
  statement is evaluated; what it rejects says nothing about Python.\<close>

definition nat_of_digits :: "string \<Rightarrow> nat" where
  "nat_of_digits ds = foldl (\<lambda>n c. 10 * n + (of_char c - 48)) 0 ds"

definition decimal_float :: "string \<Rightarrow> real option" where
  "decimal_float s =
     (let neg = (take 1 s = ''-'');
          body = (if neg then drop 1 s else s);
          whole = takeWhile is_digit body;
          rest = dropWhile is_digit body;
          frac = drop 1 rest
      in if (rest = [] \<or> take 1 rest = ''.'') \<and> list_all is_digit frac \<and> whole @ frac \<noteq> []
         then Some ((if neg then - 1 else 1) * real (nat_of_digits (whole @ frac))
                    / 10 ^ length frac)
         else None)"

text \<open>An environment for evaluation: floats print as above, the format
  \<^verbatim>\<open>% .14e\<close> is right for zero only, the coordinate text is the list of atoms, file
  names carry the calculation's number, and the runner hands back fixed results.\<close>

definition sample_env :: "(real list, string) calc_env" where
  "sample_env =
     \<lparr> str_float = str_float_integral,
       str_list = join_blank,
       fmt_e14 = (\<lambda>x. '' 0.00000000000000e+00''),
       BOHR2ANG = 0.529177,
       BOHRPERFS2AU = 0.0457,
       make_xyz_str = (\<lambda>atoms coords3d. join_blank atoms),
       make_fn = (\<lambda>self name. ''calculator_'' @ fmt_03d (calc_number self) @ ''.'' @ name),
       environ = [],
       run_results = (\<lambda>self req. Inr [(''energy'', [- 1]), (''forces'', [0, 0, 0, 0, 0, 0])]),
       run_topology = (\<lambda>self req. Inr [(''topo'', PPath ''calculator_000.gfnff_topo'')]),
       run_geoms = (\<lambda>self req. Inr ''trajectory'') \<rparr>"

text \<open>The adapter that \<^verbatim>\<open>XTB()\<close> builds from the defaults.\<close>

definition default_xtb :: xtb where
  "default_xtb = xtb_args.extend default_args
     \<lparr> topo_used = 0, xtbrestart = None, uhf = 0, inp_fn = ''xtb.xyz'', out_fn = ''xtb.out'',
       to_keep = [''out:xtb.out'', ''gradient'', ''xtbopt.xyz'', ''g98.out'', ''xtb.trj'',
                  ''charges:charges'', ''xcontrol''],
       base_cmd = ''xtb'' \<rparr>"

text \<open>A text of \<open>n\<close> floats: \<open>n\<close> times a blank and \<^verbatim>\<open>0.5\<close>.\<close>

definition floats_text :: "nat \<Rightarrow> string" where
  "floats_text n = concat (replicate n '' 0.5'')"

section \<open>Properties\<close>

lemma re_search_literal_sublist: "re_search_literal pat s \<longleftrightarrow> sublist pat s"
  by (induction s) (auto simp: sublist_Cons_right)

subsection \<open>Words of an argument list\<close>

lemma split_words_word:
  "list_all (\<lambda>c. \<not> is_space c) w \<Longrightarrow> split_words cur (w @ rest) = split_words (cur @ w) rest"
  by (induction w arbitrary: cur) auto

lemma py_split_word_space:
  assumes "one_word w" and "is_space c"
  shows "py_split (w @ c # rest) = w # py_split rest"
  using assms split_words_word [of w "[]" "c # rest"]
  by (simp add: py_split_def one_word_def)

lemma py_split_word:
  assumes "one_word w"
  shows "py_split w = [w]"
  using assms split_words_word [of w "[]" "[]"]
  by (simp add: py_split_def one_word_def)

lemma py_split_leading_space: "is_space c \<Longrightarrow> py_split (c # rest) = py_split rest"
  by (simp add: py_split_def)

lemma digit_not_space: "d < 10 \<Longrightarrow> \<not> is_space (''0123456789'' ! d)"
proof -
  assume d: "d < 10"
  have "list_all (\<lambda>c. \<not> is_space c) ''0123456789''"
    by (simp add: is_space_def)
  moreover have "''0123456789'' ! d \<in> set ''0123456789''"
    using d by (intro nth_mem) simp
  ultimately show ?thesis
    unfolding list_all_iff by blast
qed

lemma str_nat_word: "str_nat n \<noteq> [] \<and> list_all (\<lambda>c. \<not> is_space c) (str_nat n)"
proof (induction n rule: str_nat.induct)
  case (1 n)
  show ?case
  proof (cases "n < 10")
    case True
    then show ?thesis
      by (subst (1 2) str_nat.simps) (simp add: digit_not_space)
  next
    case False
    with 1 show ?thesis
      by (subst (1 2) str_nat.simps) (simp add: digit_not_space)
  qed
qed

lemma one_word_str_int: "one_word (str_int i)"
  using str_nat_word by (simp add: one_word_def str_int_def is_space_def)

lemma space_is_space: "is_space (CHR '' '')"
  by (simp add: is_space_def)

lemma one_word_flags:
  "one_word ''--input''" "one_word ''xcontrol''" "one_word ''--chrg''" "one_word ''--uhf''"
  "one_word ''--acc''" "one_word ''--iterations''" "one_word ''--etemp''"
  "one_word ''--gbsa''" "one_word ''--alpb''" "one_word ''--gfn''"
  by (simp_all add: one_word_def is_space_def)

lemma py_split_flag:
  "one_word w \<Longrightarrow> py_split (w @ '' '' @ rest) = w # py_split rest"
  using py_split_word_space [of w "CHR '' ''" rest] by (simp add: space_is_space)

lemma base_args_split:
  assumes "one_word a"
  shows "py_split (''--input xcontrol --chrg '' @ str_int c @ '' --uhf '' @ str_int u
            @ '' --acc '' @ a @ '' --iterations '' @ str_int i)
        = [''--input'', ''xcontrol'', ''--chrg'', str_int c, ''--uhf'', str_int u,
           ''--acc'', a, ''--iterations'', str_int i]"
proof -
  have "py_split (''--input xcontrol --chrg '' @ str_int c @ '' --uhf '' @ str_int u
            @ '' --acc '' @ a @ '' --iterations '' @ str_int i)
      = py_split (''--input'' @ '' '' @ ''xcontrol'' @ '' '' @ ''--chrg'' @ '' '' @ str_int c
            @ '' '' @ ''--uhf'' @ '' '' @ str_int u @ '' '' @ ''--acc'' @ '' '' @ a @ '' ''
            @ ''--iterations'' @ '' '' @ str_int i)"
    by simp
  also have "\<dots> = [''--input'', ''xcontrol'', ''--chrg'', str_int c, ''--uhf'', str_int u,
           ''--acc'', a, ''--iterations'', str_int i]"
    by (simp only: py_split_flag one_word_flags one_word_str_int assms py_split_word)
  finally show ?thesis .
qed

lemma flag_split:
  "py_split (''--etemp '' @ s) = ''--etemp'' # py_split s"
  "py_split (''--gbsa '' @ s) = ''--gbsa'' # py_split s"
  "py_split (''--alpb '' @ s) = ''--alpb'' # py_split s"
  "py_split (''--gfn '' @ s) = ''--gfn'' # py_split s"
  using py_split_flag [of "''--etemp''" s] py_split_flag [of "''--gbsa''" s]
    py_split_flag [of "''--alpb''" s] py_split_flag [of "''--gfn''" s]
  by (simp_all add: one_word_flags)

lemma prepare_add_args_parts:
  "prepare_add_args sf self =
     py_split (''--input xcontrol --chrg '' @ str_int (charge self)
            @ '' --uhf '' @ str_int (uhf self) @ '' --acc '' @ sf (acc self)
            @ '' --iterations '' @ str_int (iterations self))
     @ etemp_args sf (etemp self)
     @ (if gbsa self \<noteq> [] then ''--gbsa'' # py_split (gbsa self)
        else if alpb self \<noteq> [] then ''--alpb'' # py_split (alpb self) else [])
     @ (if gfn self = GfnStr ''ff'' then [''--gfnff''] else ''--gfn'' # py_split (str_gfn (gfn self)))"
  unfolding prepare_add_args_def etemp_args_def Let_def flag_split [symmetric]
  by (simp split: option.splits)

lemma init_fields:
  assumes "init a = Inr self"
  shows "charge self = charge a" "uhf self = mult a - 1" "acc self = acc a"
    "iterations self = iterations a" "etemp self = etemp a" "gbsa self = gbsa a"
    "alpb self = alpb a" "gfn self = gfn a" "gfn a \<in> set valid_gfns"
    "topo_used self = 0" "xtbrestart self = None"
  using assms by (auto simp: init_def xtb_args.defs split: if_splits)

subsection \<open>The termination check\<close>

text \<open>
  C8. The termination check answers whether the phrase \<^verbatim>\<open>finished run on\<close> occurs
  somewhere in the text, and it gives the same answer for a path to a file as for the
  text of that file.
\<close>

theorem check_termination_marker:
  assumes "fs p = Some t"
  shows "check_termination fs (RawText t)
           = Inr (\<exists>pre post. t = pre @ ''finished run on'' @ post)
       \<and> check_termination fs (FilePath p) = check_termination fs (RawText t)"
  using assms
  by (simp add: check_termination_def file_or_str_def check_termination_text_def
        re_search_literal_sublist sublist_def)

theorem check_termination_marker_witness:
  "check_termination [''xtb.out'' \<mapsto> ''* finished run on 2024/01/01'']
       (FilePath ''xtb.out'') = Inr True
   \<and> check_termination [''xtb.out'' \<mapsto> ''* finished run on 2024/01/01'']
       (RawText ''* finished run on 2024/01/01'') = Inr True"
  using check_termination_marker [of "[''xtb.out'' \<mapsto> ''* finished run on 2024/01/01'']"
      "''xtb.out''" "''* finished run on 2024/01/01''"]
  by (simp add: check_termination_def file_or_str_def check_termination_text_def)

subsection \<open>Construction\<close>

text \<open>
  C4. Construction fails with the assertion about the two temperatures exactly when
  both the electronic temperature and the retry temperature are set; with at most one
  of them set and a valid Hamiltonian level it succeeds.
\<close>

theorem init_etemp_exclusive:
  "(init a = Inl (AssertionError etemp_message)
      \<longleftrightarrow> etemp a \<noteq> None \<and> retry_etemp a \<noteq> None)
   \<and> ((etemp a = None \<or> retry_etemp a = None) \<and> gfn a \<in> set valid_gfns
        \<longrightarrow> (\<exists>self. init a = Inr self))"
  by (auto simp: init_def)

theorem init_etemp_exclusive_witness:
  "init (default_args\<lparr>etemp := Some (NFloat 300), retry_etemp := Some (NFloat 1000)\<rparr>)
     = Inl (AssertionError etemp_message)
   \<and> (\<exists>self. init (default_args\<lparr>etemp := Some (NFloat 300)\<rparr>) = Inr self)
   \<and> (\<exists>self. init (default_args\<lparr>retry_etemp := Some (NFloat 1000)\<rparr>) = Inr self)"
  using
    init_etemp_exclusive [of "default_args\<lparr>etemp := Some (NFloat 300),
      retry_etemp := Some (NFloat 1000)\<rparr>"]
    init_etemp_exclusive [of "default_args\<lparr>etemp := Some (NFloat 300)\<rparr>"]
    init_etemp_exclusive [of "default_args\<lparr>retry_etemp := Some (NFloat 1000)\<rparr>"]
  by (simp add: default_args_def valid_gfns_def)

subsection \<open>The optimisation parser\<close>

text \<open>
  C5. In a directory without \<^verbatim>\<open>xtbopt.xyz\<close> the optimisation parser raises nothing:
  it returns \<^verbatim>\<open>None\<close> and its only effect is one log line, the calculation's number
  in three digits followed by \<^verbatim>\<open>failed\<close>.
\<close>

theorem parse_opt_missing:
  assumes "path ''xtbopt.xyz'' = None"
  shows "parse_opt fl loader self path keep_log =
           (Inr None,
            self\<lparr>trace := trace self @ [Log (fmt_03d (calc_number self) @ '' failed'')]\<rparr>)"
  using assms by (simp add: parse_opt_def emit_def)

theorem parse_opt_missing_witness:
  "\<exists>self. init (default_args\<lparr>calc_number := 7\<rparr>) = Inr self
     \<and> fst (parse_opt decimal_float Inr self
               [''xtb.out'' \<mapsto> ''TOTAL ENERGY -5.07 Eh''] False) = Inr (None :: string OptResult option)
     \<and> trace (snd (parse_opt decimal_float (Inr :: string \<Rightarrow> error + string) self
               [''xtb.out'' \<mapsto> ''TOTAL ENERGY -5.07 Eh''] False))
         = [Log ''007 failed'']"
proof -
  obtain self where s: "init (default_args\<lparr>calc_number := 7\<rparr>) = Inr self"
    by (simp add: init_def default_args_def valid_gfns_def)
  then have f: "calc_number self = 7" "trace self = []"
    by (auto simp: init_def default_args_def valid_gfns_def xtb_args.defs split: if_splits)
  have n: "fmt_03d 7 = ''007''"
    by (simp add: fmt_03d_def zfill_def str_nat.simps eval_nat_numeral)
  from parse_opt_missing [of "[''xtb.out'' \<mapsto> ''TOTAL ENERGY -5.07 Eh'']" decimal_float
      "Inr :: string \<Rightarrow> error + string" self False]
    s f n show ?thesis
    by simp
qed

subsection \<open>The argument list\<close>

text \<open>
  C7. For an adapter that was constructed, and an accuracy that prints as one word, the
  argument list is: the control-file reference, the charge, the number of unpaired
  electrons (the multiplicity minus one), the accuracy and the iteration cap; then the
  electronic temperature if there is one; then the GBSA solvent if it is set, the ALPB
  solvent only if GBSA is not set and ALPB is; last \<^verbatim>\<open>--gfnff\<close> for the level
  \<^verbatim>\<open>ff\<close> and \<^verbatim>\<open>--gfn\<close> with the level otherwise.
\<close>

theorem prepare_add_args_contents:
  assumes "init a = Inr self" and "one_word (sf (acc a))"
  shows "prepare_add_args sf self =
     [''--input'', ''xcontrol'', ''--chrg'', str_int (charge a), ''--uhf'', str_int (mult a - 1),
      ''--acc'', sf (acc a), ''--iterations'', str_int (iterations a)]
     @ etemp_args sf (etemp a)
     @ (if gbsa a \<noteq> [] then ''--gbsa'' # py_split (gbsa a)
        else if alpb a \<noteq> [] then ''--alpb'' # py_split (alpb a) else [])
     @ (if gfn a = GfnStr ''ff'' then [''--gfnff''] else [''--gfn'', str_gfn (gfn a)])"
proof -
  have g: "gfn a \<noteq> GfnStr ''ff'' \<Longrightarrow> py_split (str_gfn (gfn a)) = [str_gfn (gfn a)]"
    using init_fields(9) [OF assms(1)] py_split_word [OF one_word_str_int]
    by (auto simp: valid_gfns_def)
  show ?thesis
    unfolding prepare_add_args_parts init_fields [OF assms(1)] base_args_split [OF assms(2)]
    using g by simp
qed

theorem prepare_add_args_contents_witness:
  "\<exists>self. init (default_args\<lparr>charge := -1, mult := 2, gbsa := ''water'', alpb := ''thf''\<rparr>)
             = Inr self
     \<and> prepare_add_args str_float_integral self =
         [''--input'', ''xcontrol'', ''--chrg'', ''-1'', ''--uhf'', ''1'', ''--acc'', ''1.0'',
          ''--iterations'', ''250'', ''--gbsa'', ''water'', ''--gfn'', ''2'']"
proof -
  let ?a = "default_args\<lparr>charge := -1, mult := 2, gbsa := ''water'', alpb := ''thf''\<rparr>"
  obtain self where s: "init ?a = Inr self"
    by (simp add: init_def default_args_def valid_gfns_def)
  have w: "one_word (str_float_integral (acc ?a))"
    by (simp add: default_args_def str_float_integral_def str_int_def str_nat.simps
          one_word_def is_space_def)
  have "prepare_add_args str_float_integral self =
         [''--input'', ''xcontrol'', ''--chrg'', ''-1'', ''--uhf'', ''1'', ''--acc'', ''1.0'',
          ''--iterations'', ''250'', ''--gbsa'', ''water'', ''--gfn'', ''2'']"
    unfolding prepare_add_args_contents [of ?a self str_float_integral, OF s w]
    by (simp add: default_args_def etemp_args_def str_float_integral_def str_int_def
          str_nat.simps py_split_def is_space_def)
  with s show ?thesis by blast
qed

text \<open>
  C10. An electronic temperature of \<^verbatim>\<open>0\<close> or \<^verbatim>\<open>0.0\<close> gives the argument list of an
  adapter without electronic temperature, and these two are the only values that do:
  every other value puts \<^verbatim>\<open>--etemp\<close> and the value into the list.
\<close>

theorem etemp_zero_is_unset:
  "prepare_add_args sf (self\<lparr>etemp := Some (NInt 0)\<rparr>) = prepare_add_args sf (self\<lparr>etemp := None\<rparr>)
   \<and> prepare_add_args sf (self\<lparr>etemp := Some (NFloat 0)\<rparr>) = prepare_add_args sf (self\<lparr>etemp := None\<rparr>)
   \<and> (prepare_add_args sf (self\<lparr>etemp := Some e\<rparr>) = prepare_add_args sf (self\<lparr>etemp := None\<rparr>)
        \<longleftrightarrow> e = NInt 0 \<or> e = NFloat 0)
   \<and> (\<exists>pre post. prepare_add_args sf (self\<lparr>etemp := None\<rparr>) = pre @ post
        \<and> prepare_add_args sf (self\<lparr>etemp := Some e\<rparr>) = pre @ etemp_args sf (Some e) @ post)"
proof -
  have t: "number_truthy e \<longleftrightarrow> \<not> (e = NInt 0 \<or> e = NFloat 0)"
    by (cases e) auto
  show ?thesis
    unfolding prepare_add_args_parts
    by (auto simp: etemp_args_def t)
qed

theorem etemp_zero_is_unset_witness:
  "\<exists>self. init default_args = Inr self
     \<and> prepare_add_args str_float_integral (self\<lparr>etemp := Some (NFloat 0)\<rparr>) =
         [''--input'', ''xcontrol'', ''--chrg'', ''0'', ''--uhf'', ''0'', ''--acc'', ''1.0'',
          ''--iterations'', ''250'', ''--gfn'', ''2'']
     \<and> prepare_add_args str_float_integral (self\<lparr>etemp := Some (NInt 0)\<rparr>) =
         prepare_add_args str_float_integral (self\<lparr>etemp := Some (NFloat 0)\<rparr>)
     \<and> prepare_add_args str_float_integral (self\<lparr>etemp := Some (NInt 300)\<rparr>) \<noteq>
         prepare_add_args str_float_integral (self\<lparr>etemp := None\<rparr>)"
proof -
  obtain self where s: "init default_args = Inr self"
    by (simp add: init_def default_args_def valid_gfns_def)
  then have self: "self = xtb_args.extend default_args
        \<lparr> topo_used = 0, xtbrestart = None, uhf = 0, inp_fn = ''xtb.xyz'', out_fn = ''xtb.out'',
          to_keep = [''out:xtb.out'', ''gradient'', ''xtbopt.xyz'', ''g98.out'', ''xtb.trj'',
                   ''charges:charges'', ''xcontrol''],
          base_cmd = ''xtb'' \<rparr>"
    by (auto simp: init_def default_args_def valid_gfns_def)
  have e: "prepare_add_args str_float_integral (self\<lparr>etemp := None\<rparr>) =
         [''--input'', ''xcontrol'', ''--chrg'', ''0'', ''--uhf'', ''0'', ''--acc'', ''1.0'',
          ''--iterations'', ''250'', ''--gfn'', ''2'']"
    unfolding self
    by (simp add: prepare_add_args_def default_args_def xtb_args.defs str_float_integral_def
          str_int_def str_nat.simps py_split_def is_space_def)
  from etemp_zero_is_unset [of str_float_integral self "NInt 300"] e s show ?thesis
    by simp
qed

subsection \<open>Effects on the adapter\<close>

lemma emit_fields:
  "topo_used (emit e s) = topo_used s" "topo (emit e s) = topo s"
  "topo_interval (emit e s) = topo_interval s" "xtbrestart (emit e s) = xtbrestart s"
  "xtb_options (emit e s) = xtb_options s" "calc_number (emit e s) = calc_number s"
  "base_cmd (emit e s) = base_cmd s"
  "trace (emit e s) = trace s @ [e]"
  by (simp_all add: emit_def)

lemma write_xcontrol_trace:
  "\<exists>evs. write_xcontrol env s pc = s\<lparr>trace := trace s @ evs\<rparr>"
proof (cases pc)
  case None
  show ?thesis
    unfolding write_xcontrol_def None emit_def Let_def
    by (rule exI [of _ "PreparePath # _"]) simp
next
  case (Some p)
  show ?thesis
    unfolding write_xcontrol_def Some emit_def Let_def
    by (rule exI [of _ "PreparePath # _"]) simp
qed

lemma write_xcontrol_fields:
  "topo_used (write_xcontrol env s pc) = topo_used s"
  "topo (write_xcontrol env s pc) = topo s"
  "topo_interval (write_xcontrol env s pc) = topo_interval s"
  "xtbrestart (write_xcontrol env s pc) = xtbrestart s"
proof -
  obtain evs where e: "write_xcontrol env s pc = s\<lparr>trace := trace s @ evs\<rparr>"
    using write_xcontrol_trace by blast
  show "topo_used (write_xcontrol env s pc) = topo_used s"
    "topo (write_xcontrol env s pc) = topo s"
    "topo_interval (write_xcontrol env s pc) = topo_interval s"
    "xtbrestart (write_xcontrol env s pc) = xtbrestart s"
    unfolding e by simp_all
qed

lemma topo_due_write_xcontrol: "topo_due (write_xcontrol env s pc) = topo_due s"
  by (simp add: topo_due_def write_xcontrol_fields split: option.splits)

lemma default_adapter: "init default_args = Inr default_xtb"
  by (simp add: init_def default_args_def default_xtb_def valid_gfns_def)

lemma prepare_input_not_due:
  assumes "\<not> topo_due self"
  shows "prepare_input env self atoms coords calc_type pc
           = (Inr (), use_xtbrestart (use_topology (write_xcontrol env self pc)))"
  using assms
  by (simp add: prepare_input_def refresh_topology_def topo_due_write_xcontrol)

lemma prepare_coords_ok:
  assumes "length coords mod 3 = 0"
  shows "prepare_coords env atoms coords
           = Inr (make_xyz_str env atoms (rows3 (map (\<lambda>c. c * BOHR2ANG env) coords)))"
  using assms by (simp add: prepare_coords_def reshape3_def)

lemma get_forces_result:
  assumes "\<not> topo_due self" and "length coords mod 3 = 0"
  shows "\<exists>s req. get_forces env self atoms coords pc = (run_results env s req, emit (Run req) s)"
  unfolding get_forces_def prepare_input_not_due [OF assms(1)] prepare_coords_ok [OF assms(2)]
    Let_def
  by (simp only: prod.case sum.case) (intro exI, rule refl)

subsection \<open>Energy from forces\<close>

text \<open>
  C9. The energy operation is the forces operation followed by the removal of the entry
  \<^verbatim>\<open>forces\<close>: an error of the forces operation is passed on; a result with an entry
  \<^verbatim>\<open>forces\<close> comes back without it, every other entry kept in place with its key
  and value, and the adapter is left as the forces operation left it. The calculation
  operation is the energy operation.
\<close>

theorem get_energy_drops_forces:
  "(\<forall>e self'. get_forces env self atoms coords pc = (Inl e, self')
       \<longrightarrow> get_energy env self atoms coords pc = (Inl e, self'))
   \<and> (\<forall>results self'. get_forces env self atoms coords pc = (Inr results, self')
         \<and> ''forces'' \<in> fst ` set results
       \<longrightarrow> get_energy env self atoms coords pc
             = (Inr (filter (\<lambda>(k, v). k \<noteq> ''forces'') results), self')
           \<and> map_of (filter (\<lambda>(k, v). k \<noteq> ''forces'') results)
             = (map_of results)(''forces'' := None))
   \<and> run_calculation env self atoms coords pc = get_energy env self atoms coords pc"
proof -
  have d: "AList.delete ''forces'' results = filter (\<lambda>(k, v). k \<noteq> ''forces'') results"
    for results :: "(string \<times> 'a) list"
    by (induction results) auto
  have m: "map_of (AList.delete ''forces'' results) = (map_of results)(''forces'' := None)"
    for results :: "(string \<times> 'a) list"
    by (rule delete_conv')
  have k: "\<exists>f. map_of results ''forces'' = Some f" if "''forces'' \<in> fst ` set results"
    for results :: "(string \<times> 'a) list"
    using that map_of_eq_None_iff [of results "''forces''"] by auto
  have "get_energy env self atoms coords pc = (Inl e, self')"
    if "get_forces env self atoms coords pc = (Inl e, self')" for e self'
    using that by (simp add: get_energy_def)
  moreover have "get_energy env self atoms coords pc
             = (Inr (filter (\<lambda>(k, v). k \<noteq> ''forces'') results), self')
           \<and> map_of (filter (\<lambda>(k, v). k \<noteq> ''forces'') results)
             = (map_of results)(''forces'' := None)"
    if "get_forces env self atoms coords pc = (Inr results, self')"
      and "''forces'' \<in> fst ` set results" for results self'
  proof -
    from k [OF that(2)] obtain f where "map_of results ''forces'' = Some f" ..
    with that(1) m [of results] show ?thesis
      by (simp add: get_energy_def d)
  qed
  ultimately show ?thesis
    by (simp add: run_calculation_def)
qed

theorem get_energy_drops_forces_witness:
  "\<exists>self. init default_args = Inr self
     \<and> fst (get_forces sample_env self [''H'', ''H''] [0, 0, 0, 0, 0, 1] None)
         = Inr [(''energy'', [- 1]), (''forces'', [0, 0, 0, 0, 0, 0])]
     \<and> fst (get_energy sample_env self [''H'', ''H''] [0, 0, 0, 0, 0, 1] None)
         = Inr [(''energy'', [- 1])]"
proof -
  obtain self where s: "init default_args = Inr self"
    using default_adapter by blast
  then have u: "\<not> topo_due self"
    using init_fields(10) [OF s] by (simp add: topo_due_def)
  have l: "length [0, 0, 0, 0, 0, 1 :: real] mod 3 = 0"
    by simp
  have r: "run_results sample_env s0 req0
      = Inr [(''energy'', [- 1]), (''forces'', [0, 0, 0, 0, 0, 0])]" for s0 req0
    by (simp add: sample_env_def)
  obtain s1 req where f: "get_forces sample_env self [''H'', ''H''] [0, 0, 0, 0, 0, 1] None
      = (Inr [(''energy'', [- 1]), (''forces'', [0, 0, 0, 0, 0, 0])], emit (Run req) s1)"
    using get_forces_result [OF u l, of sample_env "[''H'', ''H'']" None]
    unfolding r by blast
  have m: "''forces'' \<in> fst ` set [(''energy'', [- 1 :: real]), (''forces'', [0, 0, 0, 0, 0, 0])]"
    by simp
  have "get_energy sample_env self [''H'', ''H''] [0, 0, 0, 0, 0, 1] None
      = (Inr (filter (\<lambda>(k, v). k \<noteq> ''forces'')
               [(''energy'', [- 1]), (''forces'', [0, 0, 0, 0, 0, 0])]), emit (Run req) s1)"
    using get_energy_drops_forces [of sample_env self "[''H'', ''H'']" "[0, 0, 0, 0, 0, 1]" None,
        THEN conjunct2, THEN conjunct1, rule_format, OF conjI, OF f m]
    by (rule conjunct1)
  then have "fst (get_energy sample_env self [''H'', ''H''] [0, 0, 0, 0, 0, 1] None)
      = Inr [(''energy'', [- 1])]"
    by simp
  moreover from f have "fst (get_forces sample_env self [''H'', ''H''] [0, 0, 0, 0, 0, 1] None)
      = Inr [(''energy'', [- 1]), (''forces'', [0, 0, 0, 0, 0, 0])]"
    by simp
  ultimately show ?thesis
    using s by blast
qed

subsection \<open>The Hessian parser\<close>

lemma isqrt_down_eq:
  "n \<le> k \<Longrightarrow> n * n \<le> m \<Longrightarrow> m < Suc n * Suc n \<Longrightarrow> isqrt_down m k = n"
proof (induction k)
  case 0
  then show ?case by simp
next
  case (Suc k)
  show ?case
  proof (cases "n = Suc k")
    case True
    with Suc.prems show ?thesis by simp
  next
    case False
    with Suc.prems have le: "n \<le> k" by linarith
    then have "Suc n \<le> Suc k" by linarith
    then have "Suc n * Suc n \<le> Suc k * Suc k"
      by (intro mult_le_mono)
    with Suc.prems have "\<not> Suc k * Suc k \<le> m" by linarith
    with Suc.IH [OF le Suc.prems(2,3)] show ?thesis by simp
  qed
qed

lemma isqrt_square: "isqrt (n * n) = n"
proof -
  have "n \<le> n * n" by (cases n) simp_all
  then show ?thesis
    unfolding isqrt_def by (rule isqrt_down_eq) simp_all
qed

lemma concat_rows_take:
  "m * n \<le> length xs \<Longrightarrow> concat (map (\<lambda>i. take n (drop (i * n) xs)) [0..<m]) = take (m * n) xs"
proof (induction m)
  case 0
  then show ?case by simp
next
  case (Suc m)
  then have le: "m * n \<le> length xs" by simp
  have "concat (map (\<lambda>i. take n (drop (i * n) xs)) [0..<Suc m])
      = concat (map (\<lambda>i. take n (drop (i * n) xs)) [0..<m]) @ take n (drop (m * n) xs)"
    by simp
  also have "\<dots> = take (m * n) xs @ take n (drop (m * n) xs)"
    using Suc.IH [OF le] by simp
  also have "\<dots> = take (m * n + n) xs"
    by (simp add: take_add)
  also have "m * n + n = Suc m * n"
    by simp
  finally show ?case .
qed

lemma reshape_square_rows:
  assumes "length xs = n * n"
  shows "\<exists>rows. reshape_square n xs = Inr rows \<and> length rows = n
           \<and> list_all (\<lambda>row. length row = n) rows \<and> concat rows = xs
           \<and> rows = map (\<lambda>i. take n (drop (i * n) xs)) [0..<n]"
proof -
  have "list_all (\<lambda>row. length row = n) (map (\<lambda>i. take n (drop (i * n) xs)) [0..<n])"
  proof -
    have "length (take n (drop (i * n) xs)) = n" if "i < n" for i
    proof -
      from that have "Suc i * n \<le> n * n" by (intro mult_le_mono1) simp
      with assms show ?thesis by simp
    qed
    then show ?thesis by (simp add: list_all_iff)
  qed
  moreover have "concat (map (\<lambda>i. take n (drop (i * n) xs)) [0..<n]) = xs"
    using concat_rows_take [of n n xs] assms by simp
  ultimately show ?thesis
    using assms by (simp add: reshape_square_def)
qed

lemma split_words_floats_text:
  "split_words w (floats_text n) = (if w = [] then [] else [w]) @ replicate n ''0.5''"
proof (induction n arbitrary: w)
  case 0
  show ?case by (simp add: floats_text_def)
next
  case (Suc n)
  have t: "floats_text (Suc n) = CHR '' '' # ''0.5'' @ floats_text n"
    by (simp add: floats_text_def)
  have w: "list_all (\<lambda>c. \<not> is_space c) ''0.5''"
    by (simp add: is_space_def)
  have "split_words [] (''0.5'' @ floats_text n) = ''0.5'' # replicate n ''0.5''"
    using split_words_word [OF w, of "[]" "floats_text n"] Suc.IH [of "''0.5''"] by simp
  then show ?case
    unfolding t by (simp add: space_is_space)
qed

lemma py_split_floats_text:
  "py_split (floats_text n) = replicate n ''0.5''"
  "py_split (''$hessian'' @ floats_text n) = ''$hessian'' # replicate n ''0.5''"
proof -
  show "py_split (floats_text n) = replicate n ''0.5''"
    by (simp add: py_split_def split_words_floats_text)
  have w: "list_all (\<lambda>c. \<not> is_space c) ''$hessian''"
    by (simp add: is_space_def)
  show "py_split (''$hessian'' @ floats_text n) = ''$hessian'' # replicate n ''0.5''"
    using split_words_word [OF w, of "[]" "floats_text n"]
    by (simp add: py_split_def split_words_floats_text)
qed

lemma decimal_float_half: "decimal_float ''0.5'' = Some (1 / 2)"
  by (simp add: decimal_float_def nat_of_digits_def is_digit_def)

lemma floats_of_halves: "floats_of decimal_float (replicate n ''0.5'') = Inr (replicate n (1 / 2))"
  by (induction n) (simp_all add: decimal_float_half)

lemma parse_energy_sample:
  "parse_energy decimal_float default_xtb
     (map_of [(''hessian'', h), (''xtb.out'', ''TOTAL ENERGY -5.07 Eh'')]) = Inr (- 5.07)"
  by (simp add: parse_energy_def default_xtb_def xtb_args.defs match_energy_def is_space_def
        is_energy_char_def is_digit_def decimal_float_def nat_of_digits_def)

lemma parse_hessian_tokens:
  assumes "path ''hessian'' = Some body" and "floats_of fl (drop 1 (py_split body)) = Inr flat"
  shows "parse_hessian fl self path =
     (if isqrt (length flat) * isqrt (length flat) = length flat
      then (case parse_energy fl self path of
              Inl e \<Rightarrow> Inl e
            | Inr en \<Rightarrow> Inr \<lparr> energy = en,
                hessian = map (\<lambda>i. take (isqrt (length flat)) (drop (i * isqrt (length flat)) flat))
                            [0..<isqrt (length flat)] \<rparr>)
      else Inl (ValueError ''cannot reshape array''))"
  using assms by (simp add: parse_hessian_def reshape_square_def Let_def)

text \<open>
  C1, amended. The Hessian parser splits the file \<^verbatim>\<open>hessian\<close> at whitespace, drops
  the first word (the header of the file), converts the other words to floats and
  arranges them, in order, in a square whose side is the integer square root of their
  number. With \<open>n * n\<close> floats after the header and an energy in the log it returns the
  \<open>n\<close> rows of \<open>n\<close>, so a header and 36 floats give 6 rows of 6; with a number of floats
  that is no square, such as 35, it fails with the error of the reshape.
\<close>

theorem parse_hessian_header_square:
  assumes "path ''hessian'' = Some body" and "py_split body = header # tokens"
    and "floats_of fl tokens = Inr flat"
  shows
    "(\<forall>n en. length flat = n * n \<and> parse_energy fl self path = Inr en \<longrightarrow>
        parse_hessian fl self path
          = Inr \<lparr> energy = en, hessian = map (\<lambda>i. take n (drop (i * n) flat)) [0..<n] \<rparr>)
     \<and> (\<forall>en. length flat = 36 \<and> parse_energy fl self path = Inr en \<longrightarrow>
          (\<exists>rows. parse_hessian fl self path = Inr \<lparr> energy = en, hessian = rows \<rparr>
             \<and> length rows = 6 \<and> list_all (\<lambda>row. length row = 6) rows \<and> concat rows = flat))
     \<and> ((\<forall>n. length flat \<noteq> n * n) \<longrightarrow>
          parse_hessian fl self path = Inl (ValueError ''cannot reshape array''))
     \<and> (length flat = 35 \<longrightarrow>
          parse_hessian fl self path = Inl (ValueError ''cannot reshape array''))"
proof -
  have f: "floats_of fl (drop 1 (py_split body)) = Inr flat"
    using assms(2,3) by simp
  note p = parse_hessian_tokens [of path body fl flat self, OF assms(1) f]
  have sq: "parse_hessian fl self path
          = Inr \<lparr> energy = en, hessian = map (\<lambda>i. take n (drop (i * n) flat)) [0..<n] \<rparr>"
    if "length flat = n * n" and "parse_energy fl self path = Inr en" for n en
    using that p by (simp add: isqrt_square)
  have six: "\<exists>rows. parse_hessian fl self path = Inr \<lparr> energy = en, hessian = rows \<rparr>
             \<and> length rows = 6 \<and> list_all (\<lambda>row. length row = 6) rows \<and> concat rows = flat"
    if "length flat = 36" and "parse_energy fl self path = Inr en" for en
  proof -
    from that(1) have l: "length flat = 6 * 6" by simp
    from reshape_square_rows [OF l] sq [OF l that(2)] show ?thesis by auto
  qed
  have no: "parse_hessian fl self path = Inl (ValueError ''cannot reshape array'')"
    if "\<forall>n. length flat \<noteq> n * n"
    using that p by (auto simp: eq_commute)
  have i35: "isqrt 35 = 5"
    by code_simp
  have n35: "parse_hessian fl self path = Inl (ValueError ''cannot reshape array'')"
    if "length flat = 35"
    using that p by (simp add: i35)
  from sq six no n35 show ?thesis by blast
qed

theorem parse_hessian_header_square_witness:
  "(\<exists>rows. parse_hessian decimal_float default_xtb
        (map_of [(''hessian'', ''$hessian'' @ floats_text 36),
                 (''xtb.out'', ''TOTAL ENERGY -5.07 Eh'')])
        = Inr \<lparr> energy = - 5.07, hessian = rows \<rparr>
      \<and> length rows = 6 \<and> list_all (\<lambda>row. length row = 6) rows
      \<and> concat rows = replicate 36 (1 / 2))
   \<and> parse_hessian decimal_float default_xtb
        (map_of [(''hessian'', ''$hessian'' @ floats_text 35),
                 (''xtb.out'', ''TOTAL ENERGY -5.07 Eh'')])
        = Inl (ValueError ''cannot reshape array'')"
proof -
  let ?dir = "\<lambda>n. map_of [(''hessian'', ''$hessian'' @ floats_text n),
                 (''xtb.out'', ''TOTAL ENERGY -5.07 Eh'')]"
  have a: "?dir n ''hessian'' = Some (''$hessian'' @ floats_text n)" for n
    by simp
  note t36 = parse_hessian_header_square [of "?dir 36" "''$hessian'' @ floats_text 36"
      "''$hessian''" "replicate 36 ''0.5''" decimal_float "replicate 36 (1 / 2)" default_xtb,
      OF a py_split_floats_text(2) floats_of_halves]
  note t35 = parse_hessian_header_square [of "?dir 35" "''$hessian'' @ floats_text 35"
      "''$hessian''" "replicate 35 ''0.5''" decimal_float "replicate 35 (1 / 2)" default_xtb,
      OF a py_split_floats_text(2) floats_of_halves]
  from t36 [THEN conjunct2, THEN conjunct1, rule_format, of "- 5.07"] parse_energy_sample
  have "\<exists>rows. parse_hessian decimal_float default_xtb (?dir 36)
        = Inr \<lparr> energy = - 5.07, hessian = rows \<rparr>
      \<and> length rows = 6 \<and> list_all (\<lambda>row. length row = 6) rows
      \<and> concat rows = replicate 36 (1 / 2)"
    by simp
  moreover from t35 [THEN conjunct2, THEN conjunct2, THEN conjunct2]
  have "parse_hessian decimal_float default_xtb (?dir 35)
        = Inl (ValueError ''cannot reshape array'')"
    by simp
  ultimately show ?thesis by blast
qed

theorem parse_hessian_36_floats_counterexample:
  "parse_hessian decimal_float default_xtb
     (map_of [(''hessian'', floats_text 36), (''xtb.out'', ''TOTAL ENERGY -5.07 Eh'')])
     = Inl (ValueError ''cannot reshape array'')"
proof -
  have "drop 1 (py_split (floats_text 36)) = replicate 35 ''0.5''"
    by (simp add: py_split_floats_text)
  then have f: "floats_of decimal_float (drop 1 (py_split (floats_text 36)))
      = Inr (replicate 35 (1 / 2))"
    by (simp only: floats_of_halves)
  have i35: "isqrt 35 = 5"
    by code_simp
  have a: "map_of [(''hessian'', floats_text 36), (''xtb.out'', ''TOTAL ENERGY -5.07 Eh'')]
      ''hessian'' = Some (floats_text 36)"
    by simp
  show ?thesis
    unfolding parse_hessian_tokens [of
        "map_of [(''hessian'', floats_text 36), (''xtb.out'', ''TOTAL ENERGY -5.07 Eh'')]"
        "floats_text 36" decimal_float "replicate 35 (1 / 2)" default_xtb, OF a f]
    by (simp add: i35)
qed

subsection \<open>Molecular dynamics with initial velocities\<close>

lemma length_rows3: "length (rows3 xs) = length xs div 3"
  by (induction xs rule: rows3.induct) simp_all

lemma set_join_lines: "set (join_lines ls) \<subseteq> (\<Union>l\<in>set ls. set l) \<union> {CHR ''\<newline>''}"
  by (induction ls rule: join_lines.induct) auto

lemma set_split_lines: "(\<Union>l\<in>set (split_lines cur s). set l) \<subseteq> set cur \<union> set s"
proof (induction s arbitrary: cur)
  case Nil
  show ?case by simp
next
  case (Cons c s)
  show ?case
  proof (cases "c = CHR ''\<newline>''")
    case True
    with Cons [of "[]"] show ?thesis by auto
  next
    case False
    with Cons [of "cur @ [c]"] show ?thesis by auto
  qed
qed

lemma set_indent: "set (indent s pre) \<subseteq> set s \<union> set pre \<union> {CHR ''\<newline>''}"
proof -
  have "(\<Union>l\<in>set (map (\<lambda>l. if list_all is_space l then l else pre @ l) (split_lines [] s)). set l)
      \<subseteq> set s \<union> set pre"
    using set_split_lines [of "[]" s] by auto
  with set_join_lines [of "map (\<lambda>l. if list_all is_space l then l else pre @ l) (split_lines [] s)"]
  show ?thesis
    unfolding indent_def by blast
qed

lemma set_join_blank: "set (join_blank ws) \<subseteq> (\<Union>w\<in>set ws. set w) \<union> {CHR '' ''}"
  by (induction ws rule: join_blank.induct) auto

lemma is_ascii_mdrestart:
  assumes "\<And>x. is_ascii (fmt x)"
  shows "is_ascii (get_mdrestart_str fmt cs vs)"
proof -
  let ?A = "{c. (of_char c :: nat) < 128}"
  have f: "set (fmt x) \<subseteq> ?A" for x
    using assms [of x] by (auto simp: is_ascii_def list_all_iff)
  have sp: "CHR '' '' \<in> ?A" "CHR ''\<newline>'' \<in> ?A"
    by simp_all
  have row: "set (join_blank (map fmt r) @ ''\<newline>'') \<subseteq> ?A" for r
  proof -
    have "(\<Union>w\<in>set (map fmt r). set w) \<subseteq> ?A"
      using f by auto
    with set_join_blank [of "map fmt r"] sp(1) have "set (join_blank (map fmt r)) \<subseteq> ?A"
      by blast
    with sp(2) show ?thesis by simp
  qed
  have body: "set (concat (map (\<lambda>row. join_blank (map fmt row) @ ''\<newline>'') rows)) \<subseteq> ?A" for rows
    using row by auto
  have m: "set (map (\<lambda>c. if c = CHR ''e'' then CHR ''D'' else c) s) \<subseteq> ?A"
    if "set s \<subseteq> ?A" for s
    using that by (induction s) simp_all
  let ?T = "''-1.0\<newline>'' @ map (\<lambda>c. if c = CHR ''e'' then CHR ''D'' else c)
          (concat (map (\<lambda>row. join_blank (map fmt row) @ ''\<newline>'') (map2 (@) cs vs)))"
  have t: "set ?T \<subseteq> ?A"
    using m [OF body [of "map2 (@) cs vs"]] by simp
  have "set (indent ?T '' '') \<subseteq> set ?T \<union> set '' '' \<union> {CHR ''\<newline>''}"
    by (rule set_indent)
  also have "\<dots> \<subseteq> ?A"
    using t sp by simp
  finally have "set (get_mdrestart_str fmt cs vs) \<subseteq> ?A"
    unfolding get_mdrestart_str_def Let_def .
  then show ?thesis
    by (auto simp: is_ascii_def list_all_iff)
qed

lemma stage_velocities_mismatch:
  assumes "length v \<noteq> length coords"
  shows "\<exists>e. stage_velocities env s coords (Some v) = (Inl e, s)"
    and "length coords mod 3 = 0 \<Longrightarrow> length v mod 3 = 0 \<Longrightarrow>
         stage_velocities env s coords (Some v) = (Inl (AssertionError shape_message), s)"
proof -
  have d: "length coords mod 3 = 0 \<Longrightarrow> length v mod 3 = 0 \<Longrightarrow>
      length coords div 3 \<noteq> length v div 3"
    using assms by (metis div_mult_mod_eq)
  show "length coords mod 3 = 0 \<Longrightarrow> length v mod 3 = 0 \<Longrightarrow>
         stage_velocities env s coords (Some v) = (Inl (AssertionError shape_message), s)"
    using d by (simp add: stage_velocities_def reshape3_def length_rows3)
  then show "\<exists>e. stage_velocities env s coords (Some v) = (Inl e, s)"
    by (cases "length coords mod 3 = 0"; cases "length v mod 3 = 0")
       (simp_all add: stage_velocities_def reshape3_def)
qed

lemma stage_velocities_match:
  assumes "length v = length coords" and "length coords mod 3 = 0"
    and "\<And>x. is_ascii (fmt_e14 env x)"
  shows "stage_velocities env s coords (Some v) =
     (Inr ''true'', emit (WriteFile ''mdrestart''
        (get_mdrestart_str (fmt_e14 env) (rows3 coords)
           (map (map (\<lambda>x. x * BOHRPERFS2AU env)) (rows3 v)))) s)"
proof -
  have "is_ascii (get_mdrestart_str (fmt_e14 env) (rows3 coords)
           (map (map (\<lambda>x. x * BOHRPERFS2AU env)) (rows3 v)))"
    using assms(3) by (rule is_ascii_mdrestart)
  then show ?thesis
    using assms(1,2)
    by (simp add: stage_velocities_def reshape3_def length_rows3 write_mdrestart_def is_ascii_def)
qed

lemma emit_trace: "emit e s = s\<lparr>trace := trace s @ [e]\<rparr>"
  by (simp add: emit_def)

text \<open>
  C6. A dynamics request whose velocities do not have as many numbers as the
  coordinates fails after the working directory is prepared and before anything else is
  asked of the environment: no file is written and the runner is not called. When both
  arrays are whole rows of three the failure is the assertion about the shapes. When the
  shapes agree (and the number format prints ASCII) the restart file is written first,
  then the control file, and the runner is called in mode \<^verbatim>\<open>md\<close>; its answer is the
  result.
\<close>

theorem run_md_velocities_shape:
  "(length v \<noteq> length coords \<longrightarrow>
      (\<exists>e. run_md env self atoms coords t dt (Some v) dump
             = (Inl e, self\<lparr>trace := trace self @ [PreparePath]\<rparr>)))
   \<and> (length v \<noteq> length coords \<and> length coords mod 3 = 0 \<and> length v mod 3 = 0 \<longrightarrow>
        run_md env self atoms coords t dt (Some v) dump
          = (Inl (AssertionError shape_message), self\<lparr>trace := trace self @ [PreparePath]\<rparr>))
   \<and> (length v = length coords \<and> length coords mod 3 = 0 \<and> (\<forall>x. is_ascii (fmt_e14 env x)) \<longrightarrow>
        (\<exists>x l s req.
           run_md env self atoms coords t dt (Some v) dump
             = (run_geoms env s req,
                s\<lparr>trace := trace self @
                   [PreparePath,
                    WriteFile ''mdrestart''
                      (get_mdrestart_str (fmt_e14 env) (rows3 coords)
                         (map (map (\<lambda>x. x * BOHRPERFS2AU env)) (rows3 v))),
                    WriteFile ''xcontrol'' x, Log l, Run req]\<rparr>)
           \<and> req_calc req = ''md''))"
proof (intro conjI impI)
  assume "length v \<noteq> length coords"
  from stage_velocities_mismatch(1) [OF this, of env "emit PreparePath self"]
  show "\<exists>e. run_md env self atoms coords t dt (Some v) dump
             = (Inl e, self\<lparr>trace := trace self @ [PreparePath]\<rparr>)"
    by (auto simp: run_md_def emit_trace)
next
  assume "length v \<noteq> length coords \<and> length coords mod 3 = 0 \<and> length v mod 3 = 0"
  then have "stage_velocities env (emit PreparePath self) coords (Some v)
      = (Inl (AssertionError shape_message), emit PreparePath self)"
    using stage_velocities_mismatch(2) [of v coords env "emit PreparePath self"] by simp
  then show "run_md env self atoms coords t dt (Some v) dump
          = (Inl (AssertionError shape_message), self\<lparr>trace := trace self @ [PreparePath]\<rparr>)"
    by (simp add: run_md_def emit_trace)
next
  assume a: "length v = length coords \<and> length coords mod 3 = 0 \<and> (\<forall>x. is_ascii (fmt_e14 env x))"
  define m where "m = get_mdrestart_str (fmt_e14 env) (rows3 coords)
                         (map (map (\<lambda>x. x * BOHRPERFS2AU env)) (rows3 v))"
  define s1 where "s1 = emit (WriteFile ''mdrestart'' m) (emit PreparePath self)"
  define x where "x = format_xcontrol (str_float env)
      (fold (\<lambda>(section, es). AList.update section es) (xtb_options s1)
         (md_options ''true'' t dt dump))"
  define s2 where "s2 = emit (WriteFile ''xcontrol'' x) s1"
  define add_args where "add_args = prepare_add_args (str_float env) s2
                                    @ [''--input'', ''xcontrol'', ''--md'']"
  define l where "l = ''Executing '' @ base_cmd s2 @ '' '' @ str_list env add_args"
  define s3 where "s3 = emit (Log l) s2"
  define req where "req = \<lparr> req_inp = make_xyz_str env atoms
                                 (rows3 (map (\<lambda>c. c * BOHR2ANG env) coords)),
                               req_calc = ''md'',
                               req_add_args = Some add_args, req_cmd = None,
                               req_env = get_pal_env env s3,
                               req_keep = Some True, req_keep_log = None \<rparr>"
  have st: "stage_velocities env (emit PreparePath self) coords (Some v) = (Inr ''true'', s1)"
    unfolding s1_def m_def
    using a by (intro stage_velocities_match) simp_all
  have pc: "prepare_coords env atoms coords
      = Inr (make_xyz_str env atoms (rows3 (map (\<lambda>c. c * BOHR2ANG env) coords)))"
    using a by (intro prepare_coords_ok) simp
  have r: "run_md env self atoms coords t dt (Some v) dump = (run_geoms env s3 req, emit (Run req) s3)"
    unfolding run_md_def st Let_def prod.case sum.case pc
    unfolding req_def s3_def l_def add_args_def s2_def x_def
    by (rule refl)
  have "trace s3 = trace self @ [PreparePath, WriteFile ''mdrestart'' m, WriteFile ''xcontrol'' x, Log l]"
    by (simp add: s3_def s2_def s1_def emit_fields)
  then have "emit (Run req) s3 = s3\<lparr>trace := trace self @
      [PreparePath, WriteFile ''mdrestart'' m, WriteFile ''xcontrol'' x, Log l, Run req]\<rparr>"
    by (simp add: emit_trace)
  with r have "run_md env self atoms coords t dt (Some v) dump
             = (run_geoms env s3 req,
                s3\<lparr>trace := trace self @
                   [PreparePath, WriteFile ''mdrestart'' m, WriteFile ''xcontrol'' x, Log l, Run req]\<rparr>)
           \<and> req_calc req = ''md''"
    by (simp add: req_def)
  then show "\<exists>x l s req.
           run_md env self atoms coords t dt (Some v) dump
             = (run_geoms env s req,
                s\<lparr>trace := trace self @
                   [PreparePath,
                    WriteFile ''mdrestart''
                      (get_mdrestart_str (fmt_e14 env) (rows3 coords)
                         (map (map (\<lambda>x. x * BOHRPERFS2AU env)) (rows3 v))),
                    WriteFile ''xcontrol'' x, Log l, Run req]\<rparr>)
           \<and> req_calc req = ''md''"
    unfolding m_def by blast
qed

theorem run_md_velocities_shape_witness:
  "run_md sample_env default_xtb [''H'', ''H''] [0, 0, 0, 0, 0, 1] 1000 (NFloat 1)
       (Some [0, 0, 0]) 1
     = (Inl (AssertionError shape_message), default_xtb\<lparr>trace := [PreparePath]\<rparr>)
   \<and> (\<exists>x l s req.
         run_md sample_env default_xtb [''H'', ''H''] [0, 0, 0, 0, 0, 1] 1000 (NFloat 1)
             (Some [0, 0, 0, 0, 0, 0]) 1
           = (Inr ''trajectory'',
              s\<lparr>trace := [PreparePath,
                   WriteFile ''mdrestart''
                     (get_mdrestart_str (fmt_e14 sample_env) (rows3 [0, 0, 0, 0, 0, 1])
                        (map (map (\<lambda>x. x * BOHRPERFS2AU sample_env)) (rows3 [0, 0, 0, 0, 0, 0]))),
                   WriteFile ''xcontrol'' x, Log l, Run req]\<rparr>)
         \<and> req_calc req = ''md'')"
proof -
  have t: "trace default_xtb = []"
    by (simp add: default_xtb_def default_args_def xtb_args.defs)
  have asc: "\<forall>x. is_ascii (fmt_e14 sample_env x)"
    by (simp add: sample_env_def is_ascii_def)
  have g: "run_geoms sample_env s req = Inr ''trajectory''" for s req
    by (simp add: sample_env_def)
  note m = run_md_velocities_shape [of "[0, 0, 0]" "[0, 0, 0, 0, 0, 1]" sample_env default_xtb
      "[''H'', ''H'']" 1000 "NFloat 1" 1]
  note k = run_md_velocities_shape [of "[0, 0, 0, 0, 0, 0]" "[0, 0, 0, 0, 0, 1]" sample_env
      default_xtb "[''H'', ''H'']" 1000 "NFloat 1" 1]
  from m have "run_md sample_env default_xtb [''H'', ''H''] [0, 0, 0, 0, 0, 1] 1000 (NFloat 1)
       (Some [0, 0, 0]) 1
     = (Inl (AssertionError shape_message), default_xtb\<lparr>trace := [PreparePath]\<rparr>)"
    by (simp add: t)
  moreover from k [THEN conjunct2, THEN conjunct2] asc
  have "\<exists>x l s req.
         run_md sample_env default_xtb [''H'', ''H''] [0, 0, 0, 0, 0, 1] 1000 (NFloat 1)
             (Some [0, 0, 0, 0, 0, 0]) 1
           = (Inr ''trajectory'',
              s\<lparr>trace := [PreparePath,
                   WriteFile ''mdrestart''
                     (get_mdrestart_str (fmt_e14 sample_env) (rows3 [0, 0, 0, 0, 0, 1])
                        (map (map (\<lambda>x. x * BOHRPERFS2AU sample_env)) (rows3 [0, 0, 0, 0, 0, 0]))),
                   WriteFile ''xcontrol'' x, Log l, Run req]\<rparr>)
         \<and> req_calc req = ''md''"
    by (simp add: t g)
  ultimately show ?thesis by blast
qed

end
